theory Spec2Isabelle
  imports Main
begin

section \<open>Python values and string primitives used by the request handler\<close>

text \<open>
  Header names, header values and request paths are \<open>string\<close>s. A byte string
  (request body, response body, a base64 payload) is a list of 8-bit characters as
  well, so \<open>bytes\<close> is \<open>string\<close> too. Decoded text is a list of Unicode code
  points. The functions \<^verbatim>\<open>_check\<close>, \<^verbatim>\<open>_log_request_content\<close>, \<^verbatim>\<open>_calendar\<close> and
  \<^verbatim>\<open>_decode\<close> of the module keep their names without the leading underscore.
\<close>

type_synonym bytes = string
type_synonym unicode = "nat list"

text \<open>\<^verbatim>\<open>s.lstrip(chars)\<close>, \<^verbatim>\<open>s.rstrip(chars)\<close>, \<^verbatim>\<open>s.strip(chars)\<close>: drop the
  characters of the set \<open>chars\<close> from the ends.\<close>

definition py_lstrip :: "'a list \<Rightarrow> 'a list \<Rightarrow> 'a list" where
  "py_lstrip chars s = dropWhile (\<lambda>c. c \<in> set chars) s"

definition py_rstrip :: "'a list \<Rightarrow> 'a list \<Rightarrow> 'a list" where
  "py_rstrip chars s = rev (dropWhile (\<lambda>c. c \<in> set chars) (rev s))"

definition py_strip :: "'a list \<Rightarrow> 'a list \<Rightarrow> 'a list" where
  "py_strip chars s = py_rstrip chars (py_lstrip chars s)"

text \<open>The characters \<^verbatim>\<open>s.strip()\<close> removes when no argument is given: space, tab,
  line feed, carriage return, vertical tab, form feed.\<close>

definition whitespace :: string where
  "whitespace = [CHR 0x20, CHR 0x09, CHR 0x0A, CHR 0x0D, CHR 0x0B, CHR 0x0C]"

text \<open>\<^verbatim>\<open>s.split(sep)\<close> for a non-empty separator: the pieces between the
  non-overlapping occurrences of \<open>sep\<close>, scanned from the left; a string without
  the separator is its own single piece, so the result is never empty. (Python raises
  ValueError on an empty separator; every call site passes a literal.)\<close>

fun split_from :: "'a list \<Rightarrow> 'a list \<Rightarrow> 'a list \<Rightarrow> 'a list list" where
  "split_from sep cur [] = [cur]"
| "split_from sep cur (x # xs) =
     (if sep \<noteq> [] \<and> take (length sep) (x # xs) = sep
      then cur # split_from sep [] (drop (length sep - 1) xs)
      else split_from sep (cur @ [x]) xs)"

definition py_split :: "'a list \<Rightarrow> 'a list \<Rightarrow> 'a list list" where
  "py_split sep s = split_from sep [] s"

text \<open>\<^verbatim>\<open>sep.join(parts)\<close>.\<close>

fun py_join :: "'a list \<Rightarrow> 'a list list \<Rightarrow> 'a list" where
  "py_join sep [] = []"
| "py_join sep [p] = p"
| "py_join sep (p # q # ps) = p @ sep @ py_join sep (q # ps)"

text \<open>\<^verbatim>\<open>s.endswith(suffix)\<close>, \<^verbatim>\<open>s.startswith(prefix)\<close> and \<^verbatim>\<open>sub in s\<close>.\<close>

definition endswith :: "'a list \<Rightarrow> 'a list \<Rightarrow> bool" where
  "endswith s suf = (take (length suf) (rev s) = rev suf)"

definition startswith :: "'a list \<Rightarrow> 'a list \<Rightarrow> bool" where
  "startswith s pre = (take (length pre) s = pre)"

fun contains :: "'a list \<Rightarrow> 'a list \<Rightarrow> bool" where
  "contains [] sub = (sub = [])"
| "contains (x # xs) sub = (startswith (x # xs) sub \<or> contains xs sub)"

section \<open>\<^verbatim>\<open>posixpath.normpath\<close>\<close>

text \<open>
  The standard library's algorithm: the components between slashes are scanned from
  the left; empty ones and \<open>.\<close> are dropped; \<open>..\<close> removes the component kept
  before it, is dropped at the top of an absolute path, and is kept at the top of a
  relative path or after another kept \<open>..\<close>. One or two leading slashes are
  preserved (three or more count as one). The empty result is \<open>.\<close>.
\<close>

fun normpath_comps :: "bool \<Rightarrow> string list \<Rightarrow> string list \<Rightarrow> string list" where
  "normpath_comps initial_slashes new_comps [] = new_comps"
| "normpath_comps initial_slashes new_comps (cmp # comps) =
     (if cmp = '''' \<or> cmp = ''.'' then normpath_comps initial_slashes new_comps comps
      else if cmp \<noteq> ''..'' \<or> (\<not> initial_slashes \<and> new_comps = [])
                \<or> (new_comps \<noteq> [] \<and> last new_comps = ''..'')
           then normpath_comps initial_slashes (new_comps @ [cmp]) comps
      else if new_comps \<noteq> [] then normpath_comps initial_slashes (butlast new_comps) comps
      else normpath_comps initial_slashes new_comps comps)"

definition normpath :: "string \<Rightarrow> string" where
  "normpath path =
     (if path = '''' then ''.''
      else
        let initial_slashes =
              (if startswith path ''/''
               then (if startswith path ''//'' \<and> \<not> startswith path ''///'' then 2 else 1)
               else (0::nat));
            comps = normpath_comps (initial_slashes \<noteq> 0) [] (py_split ''/'' path);
            joined = replicate initial_slashes (CHR ''/'') @ py_join ''/'' comps
        in if joined = '''' then ''.'' else joined)"

section \<open>The path resolver: the \<^verbatim>\<open>_calendar\<close> property\<close>

text \<open>
  \<^verbatim>\<open>_calendar\<close> returns \<^verbatim>\<open>ical.Calendar(path)\<close> for the address \<open>path\<close> it computes,
  or nothing (None) when the list of attributes is empty. The model returns the
  address; the calendar object is a handle on the storage at that address.
\<close>

definition calendar :: "string \<Rightarrow> string option" where
  "calendar path =
     (let attributes = py_split ''/'' (normpath (py_strip ''/'' path))
      in if attributes \<noteq> []
         then
           let attributes' =
                 (if endswith (last attributes) ''.ics'' then butlast attributes
                  else attributes)
           in Some (py_join ''/'' (take (min (length attributes') 2) attributes'))
         else None)"

section \<open>Exceptions, responses and the collaborators\<close>

text \<open>Every exception the handler code can raise is a value; a function that can
  raise returns \<open>error + 'a\<close>, with \<open>Inl\<close> carrying the exception. A function
  that works on the handler object returns an \<open>outcome\<close> (below): what it raises
  comes with the handler object as it is when the exception leaves, so that what was
  sent and stored before the exception is kept.\<close>

datatype error =
    AttributeError
  | NameError
  | ValueError
  | LookupError
  | UnicodeDecodeError
  | UnicodeEncodeError
  | Base64Error

text \<open>The response is the sequence of calls made on the handler:
  \<^verbatim>\<open>send_response(code)\<close>, \<^verbatim>\<open>send_header(name, value)\<close>, \<^verbatim>\<open>end_headers()\<close>. A header
  value is a string, or the integer \<^verbatim>\<open>len(...)\<close> passed for Content-Length.\<close>

datatype header_value = Str string | Len nat

datatype event =
    Send_response nat
  | Send_header string header_value
  | End_headers

definition OK :: nat where "OK = 200"
definition NO_CONTENT :: nat where "NO_CONTENT = 204"
definition UNAUTHORIZED :: nat where "UNAUTHORIZED = 401"
definition GONE :: nat where "GONE = 410"
definition PRECONDITION_FAILED :: nat where "PRECONDITION_FAILED = 412"

text \<open>
  The modules \<^verbatim>\<open>acl\<close>, \<^verbatim>\<open>config\<close>, \<^verbatim>\<open>ical\<close> and \<^verbatim>\<open>xmlutils\<close> and the codecs of
  the Python runtime are used by the handler and defined elsewhere, so they are
  parameters: \<open>'s\<close> is the state of the calendar
  storage, \<open>'i\<close> the type of calendar items. A calendar is named by its address
  (the argument of \<^verbatim>\<open>ical.Calendar\<close>) and reads the storage.
  \<^item> \<open>acl\<close>: \<^verbatim>\<open>server.acl\<close>, absent or its \<^verbatim>\<open>has_right(owner, user, password)\<close>;
  \<^item> \<open>encoding\<close>: \<^verbatim>\<open>config.get("encoding", "request")\<close>;
  \<^item> \<open>codecs\<close>: \<^verbatim>\<open>text.decode(charset)\<close> for every charset name other than the two
    the handler spells out, \<open>utf-8\<close> and \<open>iso8859-1\<close>, which are modelled below;
  \<^item> \<open>encoders\<close>: \<^verbatim>\<open>text.encode(charset)\<close>;
  \<^item> the rest: attributes of \<^verbatim>\<open>ical.Calendar\<close> and \<^verbatim>\<open>ical.Item\<close>, and the functions of
    \<^verbatim>\<open>xmlutils\<close>; \<open>xml_put\<close> and \<open>xml_delete\<close> return the storage they leave.
  A calendar object and an item object are true where the handler tests them; only
  None is false. A string is false when it is empty.
\<close>

record ('s, 'i) env =
  acl :: "(string option \<Rightarrow> unicode option \<Rightarrow> unicode option \<Rightarrow> bool) option"
  encoding :: string
  codecs :: "string \<Rightarrow> bytes \<Rightarrow> error + unicode"
  encoders :: "string \<Rightarrow> unicode \<Rightarrow> error + bytes"
  owner :: "'s \<Rightarrow> string \<Rightarrow> string option"
  get_item :: "'s \<Rightarrow> string \<Rightarrow> string option \<Rightarrow> 'i option"
  item_etag :: "'i \<Rightarrow> string"
  timezones :: "'s \<Rightarrow> string \<Rightarrow> 'i list"
  calendar_headers :: "'s \<Rightarrow> string \<Rightarrow> 'i list"
  calendar_text :: "'s \<Rightarrow> string \<Rightarrow> unicode"
  calendar_etag :: "'s \<Rightarrow> string \<Rightarrow> string"
  last_modified :: "'s \<Rightarrow> string \<Rightarrow> string"
  serialize :: "'i list \<Rightarrow> 'i list \<Rightarrow> unicode"
  name_from_path :: "'s \<Rightarrow> string \<Rightarrow> string \<Rightarrow> string option"
  xml_put :: "'s \<Rightarrow> string \<Rightarrow> unicode \<Rightarrow> string \<Rightarrow> 's"
  xml_delete :: "'s \<Rightarrow> string \<Rightarrow> string \<Rightarrow> bytes \<times> 's"

text \<open>
  The handler object during one request: the request line's path, the headers, the
  unread input, the attributes \<^verbatim>\<open>_content\<close> and \<^verbatim>\<open>_answer\<close>, what has been sent
  (status line and headers) and written (body), and the calendar storage.
  \<^verbatim>\<open>__init__\<close> sets \<^verbatim>\<open>_content\<close> and \<^verbatim>\<open>_answer\<close> to None.
\<close>

record 's request =
  path :: string
  headers :: "string \<rightharpoonup> string"
  rfile :: bytes
  content :: "bytes option"
  answer :: "bytes option"
  sent :: "event list"
  wfile :: bytes
  storage :: 's

text \<open>What a function on the handler object does: it returns, leaving the object
  \<open>Inr r\<close>, or it raises \<open>e\<close> and leaves the object \<open>r\<close>, \<open>Inl (e, r)\<close>.\<close>

type_synonym 's outcome = "(error \<times> 's request) + 's request"

section \<open>Codecs of the runtime: base64, utf-8, iso8859-1, ascii, \<^verbatim>\<open>int\<close>\<close>

text \<open>\<^verbatim>\<open>base64.b64decode\<close>, as \<^verbatim>\<open>binascii.a2b_base64\<close> computes it: characters outside
  the alphabet are skipped, four characters give three bytes, a pad character that
  completes a quad ends the input, and an incomplete quad at the end is an error.\<close>

definition b64_value :: "char \<Rightarrow> nat option" where
  "b64_value c =
     (let n = (of_char c :: nat)
      in if 65 \<le> n \<and> n \<le> 90 then Some (n - 65)
         else if 97 \<le> n \<and> n \<le> 122 then Some (n - 71)
         else if 48 \<le> n \<and> n \<le> 57 then Some (n + 4)
         else if n = 43 then Some 62
         else if n = 47 then Some 63
         else None)"

fun a2b_base64 :: "nat \<Rightarrow> nat \<Rightarrow> nat \<Rightarrow> bytes \<Rightarrow> string \<Rightarrow> error + bytes" where
  "a2b_base64 quad_pos leftchar pads out [] =
     (if quad_pos \<noteq> 0 then Inl Base64Error else Inr out)"
| "a2b_base64 quad_pos leftchar pads out (c # cs) =
     (if c = CHR ''='' then
        (if 2 \<le> quad_pos \<and> 4 \<le> quad_pos + (pads + 1) then Inr out
         else a2b_base64 quad_pos leftchar (if 2 \<le> quad_pos then pads + 1 else pads) out cs)
      else
        (case b64_value c of
           None \<Rightarrow> a2b_base64 quad_pos leftchar pads out cs
         | Some this_ch \<Rightarrow>
             (if quad_pos = 0 then a2b_base64 1 this_ch 0 out cs
              else if quad_pos = 1 then
                a2b_base64 2 (this_ch mod 16) 0
                  (out @ [char_of (leftchar * 4 + this_ch div 16)]) cs
              else if quad_pos = 2 then
                a2b_base64 3 (this_ch mod 4) 0
                  (out @ [char_of (leftchar * 16 + this_ch div 4)]) cs
              else
                a2b_base64 0 0 0 (out @ [char_of (leftchar * 64 + this_ch)]) cs)))"

definition b64decode :: "string \<Rightarrow> error + bytes" where
  "b64decode s = a2b_base64 0 0 0 [] s"

text \<open>\<^verbatim>\<open>s.encode("ascii")\<close>: the same characters as bytes, an error when one is
  outside ASCII.\<close>

definition encode_ascii :: "string \<Rightarrow> error + bytes" where
  "encode_ascii s =
     (if list_all (\<lambda>c. (of_char c :: nat) < 128) s then Inr s else Inl UnicodeEncodeError)"

text \<open>\<^verbatim>\<open>text.decode("iso8859-1")\<close>: every byte is the code point of its value, so
  every byte string decodes.\<close>

definition decode_iso8859_1 :: "bytes \<Rightarrow> unicode" where
  "decode_iso8859_1 text = map of_char text"

text \<open>\<^verbatim>\<open>text.decode("utf-8")\<close>, the strict decoder: one to four bytes per code point;
  a stray or missing continuation byte, an overlong form, a surrogate and a code
  point above U+10FFFF are rejected (UnicodeDecodeError), here \<open>None\<close>.\<close>

definition continuation :: "nat \<Rightarrow> bool" where
  "continuation b = (128 \<le> b \<and> b < 192)"

fun utf8_points :: "nat list \<Rightarrow> nat list option" where
  "utf8_points [] = Some []"
| "utf8_points (b # bs) =
     (if b < 128 then map_option ((#) b) (utf8_points bs)
      else if 194 \<le> b \<and> b \<le> 223 then
        (case bs of
           c1 # r \<Rightarrow>
             if continuation c1
             then map_option ((#) ((b - 192) * 64 + (c1 - 128))) (utf8_points r)
             else None
         | _ \<Rightarrow> None)
      else if 224 \<le> b \<and> b \<le> 239 then
        (case bs of
           c1 # c2 # r \<Rightarrow>
             if continuation c1 \<and> continuation c2
                \<and> (if b = 224 then 160 \<le> c1 else True)
                \<and> (if b = 237 then c1 < 160 else True)
             then map_option ((#) ((b - 224) * 4096 + (c1 - 128) * 64 + (c2 - 128)))
                    (utf8_points r)
             else None
         | _ \<Rightarrow> None)
      else if 240 \<le> b \<and> b \<le> 244 then
        (case bs of
           c1 # c2 # c3 # r \<Rightarrow>
             if continuation c1 \<and> continuation c2 \<and> continuation c3
                \<and> (if b = 240 then 144 \<le> c1 else True)
                \<and> (if b = 244 then c1 < 144 else True)
             then map_option
                    ((#) ((b - 240) * 262144 + (c1 - 128) * 4096 + (c2 - 128) * 64
                          + (c3 - 128)))
                    (utf8_points r)
             else None
         | _ \<Rightarrow> None)
      else None)"

definition decode_utf8 :: "bytes \<Rightarrow> error + unicode" where
  "decode_utf8 text =
     (case utf8_points (map of_char text) of
        Some u \<Rightarrow> Inr u
      | None \<Rightarrow> Inl UnicodeDecodeError)"

text \<open>\<^verbatim>\<open>text.decode("ascii")\<close>, one of the codecs a deployment can name.\<close>

definition decode_ascii :: "bytes \<Rightarrow> error + unicode" where
  "decode_ascii text =
     (if list_all (\<lambda>c. (of_char c :: nat) < 128) text then Inr (map of_char text)
      else Inl UnicodeDecodeError)"

text \<open>\<^verbatim>\<open>int(s)\<close> on a string: optional surrounding whitespace, an optional sign,
  then decimal digits; anything else is a ValueError.\<close>

definition is_digit :: "char \<Rightarrow> bool" where
  "is_digit c = (48 \<le> (of_char c :: nat) \<and> (of_char c :: nat) \<le> 57)"

definition py_int :: "string \<Rightarrow> error + int" where
  "py_int s =
     (let t = py_strip whitespace s;
          negative = (t \<noteq> [] \<and> hd t = CHR ''-'');
          ds = (if t \<noteq> [] \<and> (hd t = CHR ''-'' \<or> hd t = CHR ''+'') then tl t else t);
          magnitude = int (foldl (\<lambda>a c. 10 * a + (of_char c - 48)) (0::nat) ds)
      in if ds \<noteq> [] \<and> list_all is_digit ds
         then Inr (if negative then - magnitude else magnitude)
         else Inl ValueError)"

section \<open>The charset resolver: \<^verbatim>\<open>_decode\<close>\<close>

text \<open>\<^verbatim>\<open>text.decode(charset)\<close>: the two codecs the handler names are the runtime's, every
  other name is looked up in the deployment's codecs (and raises LookupError when
  the name is unknown).\<close>

definition bytes_decode :: "('s, 'i) env \<Rightarrow> bytes \<Rightarrow> string \<Rightarrow> error + unicode" where
  "bytes_decode env text charset =
     (if charset = ''iso8859-1'' then Inr (decode_iso8859_1 text)
      else if charset = ''utf-8'' then decode_utf8 text
      else codecs env charset text)"

text \<open>The charset of the request, \<^verbatim>\<open>content_type.split("charset=")[1].strip()\<close>, taken
  when the Content-Type header is present, not empty and contains \<^verbatim>\<open>charset=\<close>.
  (The split then has a second piece, lemma \<open>contains_split\<close>.)\<close>

definition declared_charset :: "(string \<rightharpoonup> string) \<Rightarrow> string option" where
  "declared_charset hdrs =
     (case hdrs ''Content-Type'' of
        None \<Rightarrow> None
      | Some content_type \<Rightarrow>
          if content_type \<noteq> '''' \<and> contains content_type ''charset=''
          then (case py_split ''charset='' content_type of
                  _ # c # _ \<Rightarrow> Some (py_strip whitespace c)
                | _ \<Rightarrow> None)
          else None)"

definition charsets :: "('s, 'i) env \<Rightarrow> (string \<rightharpoonup> string) \<Rightarrow> string list" where
  "charsets env hdrs =
     (case declared_charset hdrs of None \<Rightarrow> [] | Some c \<Rightarrow> [c])
     @ [encoding env] @ [''utf-8''] @ [''iso8859-1'']"

text \<open>The loop over the charsets: a UnicodeDecodeError moves on to the next one, any
  other exception leaves the loop, and the statement after the loop raises.\<close>

fun try_charsets :: "('s, 'i) env \<Rightarrow> bytes \<Rightarrow> string list \<Rightarrow> error + unicode" where
  "try_charsets env text [] = Inl UnicodeDecodeError"
| "try_charsets env text (charset # rest) =
     (case bytes_decode env text charset of
        Inr u \<Rightarrow> Inr u
      | Inl e \<Rightarrow> if e = UnicodeDecodeError then try_charsets env text rest else Inl e)"

text \<open>\<^verbatim>\<open>_decode(text)\<close>. \<^verbatim>\<open>text\<close> is \<^verbatim>\<open>_content\<close> for a PUT, which is None when the
  request has no body: then \<^verbatim>\<open>text.decode\<close> is an AttributeError.\<close>

definition decode :: "('s, 'i) env \<Rightarrow> (string \<rightharpoonup> string) \<Rightarrow> bytes option \<Rightarrow> error + unicode" where
  "decode env hdrs text =
     (case text of
        None \<Rightarrow> Inl AttributeError
      | Some t \<Rightarrow> try_charsets env t (charsets env hdrs))"

section \<open>The authorization gate: \<^verbatim>\<open>_check\<close>\<close>

text \<open>Lines 70 to 75: the user and password of the Authorization header. An absent
  or empty header gives None for both. Otherwise the header, without leading
  characters of \<open>Basic\<close> and surrounding whitespace, is base64-decoded, decoded by
  \<^verbatim>\<open>_decode\<close> and split at colons; unpacking anything but two pieces is a
  ValueError.\<close>

definition credentials ::
  "('s, 'i) env \<Rightarrow> (string \<rightharpoonup> string) \<Rightarrow> error + (unicode option \<times> unicode option)" where
  "credentials env hdrs =
     (case hdrs ''Authorization'' of
        None \<Rightarrow> Inr (None, None)
      | Some authorization \<Rightarrow>
          if authorization = '''' then Inr (None, None)
          else
            (case encode_ascii (py_strip whitespace (py_lstrip ''Basic'' authorization)) of
               Inl e \<Rightarrow> Inl e
             | Inr challenge \<Rightarrow>
                 (case b64decode challenge of
                    Inl e \<Rightarrow> Inl e
                  | Inr payload \<Rightarrow>
                      (case decode env hdrs (Some payload) of
                         Inl e \<Rightarrow> Inl e
                       | Inr t \<Rightarrow>
                           (case py_split [58] t of
                              [user, password] \<Rightarrow> Inr (Some user, Some password)
                            | _ \<Rightarrow> Inl ValueError)))))"

definition challenge_header :: string where
  "challenge_header =
     ''Basic realm='' @ [CHR 0x22] @ ''Radicale Server - Password Required'' @ [CHR 0x22]"

text \<open>
  \<^verbatim>\<open>_check(request, function)\<close>. Line 63 evaluates
  \<^verbatim>\<open>request._calendar.owner is None and PERSONAL\<close>. The module never binds the name
  \<^verbatim>\<open>PERSONAL\<close> (line 63 is its only occurrence, and no import brings it), so when
  the owner is None the name is looked up and the lookup raises NameError; when the
  calendar has an owner, \<^verbatim>\<open>and\<close> does not evaluate it and the credentials are
  checked.
\<close>

definition check ::
  "('s, 'i) env \<Rightarrow> ('s request \<Rightarrow> 's outcome) \<Rightarrow> 's request \<Rightarrow> 's outcome" where
  "check env function request =
     (case calendar (path request) of
        None \<Rightarrow> function request
      | Some cal \<Rightarrow>
          (case acl env of
             None \<Rightarrow> function request
           | Some has_right \<Rightarrow>
               (case owner env (storage request) cal of
                  None \<Rightarrow> Inl (NameError, request)
                | Some own \<Rightarrow>
                    (case credentials env (headers request) of
                       Inl e \<Rightarrow> Inl (e, request)
                     | Inr (user, password) \<Rightarrow>
                         if has_right (Some own) user password
                         then function request
                         else Inr (request\<lparr>sent := sent request @
                                [Send_response UNAUTHORIZED,
                                 Send_header ''WWW-Authenticate'' (Str challenge_header),
                                 End_headers]\<rparr>)))))"

section \<open>Reading the request body: \<^verbatim>\<open>_log_request_content\<close>\<close>

text \<open>Line 94: \<^verbatim>\<open>int(request.headers.get("Content-Length", 0))\<close>.\<close>

definition content_length :: "(string \<rightharpoonup> string) \<Rightarrow> error + int" where
  "content_length hdrs =
     (case hdrs ''Content-Length'' of
        None \<Rightarrow> Inr 0
      | Some v \<Rightarrow> py_int v)"

text \<open>Lines 95 to 103: a content length other than zero reads the body into
  \<^verbatim>\<open>_content\<close>, zero sets \<^verbatim>\<open>_content\<close> to None. \<^verbatim>\<open>rfile.read(n)\<close> gives the next
  \<open>n\<close> bytes of the input, or all of it when \<open>n\<close> is negative.\<close>

definition read_content :: "int \<Rightarrow> 's request \<Rightarrow> 's request" where
  "read_content n request =
     (if n \<noteq> 0
      then
        (let m = (if n < 0 then length (rfile request) else nat n)
         in request\<lparr>content := Some (take m (rfile request)),
                     rfile := drop m (rfile request)\<rparr>)
      else request\<lparr>content := None\<rparr>)"

text \<open>\<^verbatim>\<open>_log_request_content(request, function)\<close>. The log lines do not change the
  request.\<close>

definition log_request_content ::
  "('s request \<Rightarrow> 's outcome) \<Rightarrow> 's request \<Rightarrow> 's outcome" where
  "log_request_content function request =
     (case content_length (headers request) of
        Inl e \<Rightarrow> Inl (e, request)
      | Inr n \<Rightarrow> function (read_content n request))"

section \<open>The verb handlers\<close>

text \<open>Each \<open>_body\<close> function is the \<^verbatim>\<open>def\<close> of the handler; the name of the handler
  itself is bound to the decorated function, as in the class. A calendar that is
  None makes the first attribute access an AttributeError. In \<^verbatim>\<open>do_PUT\<close>, line 326
  reads the ETag of the item after \<^verbatim>\<open>xmlutils.put\<close> has written (line 325): when the
  item is not there, the AttributeError leaves the storage written.\<close>

definition do_HEAD_body :: "('s, 'i) env \<Rightarrow> 's request \<Rightarrow> 's outcome" where
  "do_HEAD_body env self =
     (case calendar (path self) of
        None \<Rightarrow> Inl (AttributeError, self)
      | Some cal \<Rightarrow>
          (let st = storage self;
              item_name = name_from_path env st (path self) cal;
              found =
                (if item_name \<noteq> None \<and> item_name \<noteq> Some ''''
                 then (case get_item env st cal item_name of
                         Some item \<Rightarrow>
                           Some (serialize env (calendar_headers env st cal)
                                   (timezones env st cal @ [item]),
                                 item_etag env item)
                       | None \<Rightarrow> None)
                 else Some (calendar_text env st cal, calendar_etag env st cal))
          in (case found of
               None \<Rightarrow> Inr (self\<lparr>answer := None, sent := sent self @ [Send_response GONE]\<rparr>)
             | Some (answer_text, etag) \<Rightarrow>
                 (case encoders env (encoding env) answer_text of
                    Inl e \<Rightarrow> Inl (e, self)
                  | Inr encoded \<Rightarrow>
                      Inr (self\<lparr>answer := Some encoded,
                                sent := sent self @
                                  [Send_response OK,
                                   Send_header ''Content-Length'' (Len (length encoded)),
                                   Send_header ''Content-Type'' (Str ''text/calendar''),
                                   Send_header ''Last-Modified'' (Str (last_modified env st cal)),
                                   Send_header ''ETag'' (Str etag),
                                   End_headers]\<rparr>)))))"

definition do_HEAD :: "('s, 'i) env \<Rightarrow> 's request \<Rightarrow> 's outcome" where
  "do_HEAD env = log_request_content (check env (do_HEAD_body env))"

definition do_GET_body :: "('s, 'i) env \<Rightarrow> 's request \<Rightarrow> 's outcome" where
  "do_GET_body env self =
     (case do_HEAD env self of
        Inl raised \<Rightarrow> Inl raised
      | Inr self' \<Rightarrow>
          (case answer self' of
             None \<Rightarrow> Inr self'
           | Some a \<Rightarrow> if a \<noteq> [] then Inr (self'\<lparr>wfile := wfile self' @ a\<rparr>) else Inr self'))"

definition do_GET :: "('s, 'i) env \<Rightarrow> 's request \<Rightarrow> 's outcome" where
  "do_GET env = log_request_content (do_GET_body env)"

definition do_DELETE_body :: "('s, 'i) env \<Rightarrow> 's request \<Rightarrow> 's outcome" where
  "do_DELETE_body env self =
     (case calendar (path self) of
        None \<Rightarrow> Inl (AttributeError, self)
      | Some cal \<Rightarrow>
          (let st = storage self;
              item = get_item env st cal (name_from_path env st (path self) cal)
          in (case item of
               None \<Rightarrow> Inr (self\<lparr>sent := sent self @ [Send_response PRECONDITION_FAILED]\<rparr>)
             | Some it \<Rightarrow>
                 if (case headers self ''If-Match'' of None \<Rightarrow> item_etag env it | Some v \<Rightarrow> v)
                    = item_etag env it
                 then
                   (let (deleted, st') = xml_delete env st (path self) cal
                    in Inr (self\<lparr>answer := Some deleted,
                                 storage := st',
                                 sent := sent self @
                                   [Send_response NO_CONTENT,
                                    Send_header ''Content-Length'' (Len (length deleted)),
                                    End_headers],
                                 wfile := wfile self @ deleted\<rparr>))
                 else Inr (self\<lparr>sent := sent self @ [Send_response PRECONDITION_FAILED]\<rparr>))))"




section \<open>An example deployment\<close>

text \<open>
  A small deployment on which the theorems below are run. The storage is a list of
  items keyed by calendar address and item name; an item is its name and text, and
  its ETag is derived from the text. A calendar is owned by the first segment of its
  address and the root has no owner. A user has rights on
  the calendars they own, with the password \<open>secret\<close>. Besides the two codecs of the
  handler the deployment knows \<open>ascii\<close>.
\<close>

type_synonym example_storage = "((string \<times> string) \<times> unicode) list"
type_synonym example_item = "string \<times> unicode"

definition example_name :: "string \<Rightarrow> string option" where
  "example_name p = (if endswith p ''.ics'' then Some (last (py_split ''/'' p)) else None)"

definition example_has_right :: "string option \<Rightarrow> unicode option \<Rightarrow> unicode option \<Rightarrow> bool" where
  "example_has_right own user password =
     (own \<noteq> None \<and> user = map_option (map of_char) own
      \<and> password = Some (map of_char ''secret''))"

definition example_env :: "(example_storage, example_item) env" where
  "example_env =
     \<lparr> acl = Some example_has_right,
       encoding = ''utf-8'',
       codecs = (\<lambda>charset text. if charset = ''ascii'' then decode_ascii text
                                 else Inl LookupError),
       encoders = (\<lambda>charset u. if list_all (\<lambda>n. n < 128) u then Inr (map char_of u)
                                else Inl UnicodeEncodeError),
       owner = (\<lambda>st cal. if cal = ''.'' \<or> cal = '''' then None
                          else Some (hd (py_split ''/'' cal))),
       get_item = (\<lambda>st cal name.
                    case name of
                      None \<Rightarrow> None
                    | Some n \<Rightarrow> map_option (Pair n) (map_of st (cal, n))),
       item_etag = (\<lambda>item. ''etag-'' @ map char_of (snd item)),
       timezones = (\<lambda>st cal. []),
       calendar_headers = (\<lambda>st cal. []),
       calendar_text = (\<lambda>st cal. concat (map snd (filter (\<lambda>e. fst (fst e) = cal) st))),
       calendar_etag = (\<lambda>st cal. ''etag-calendar''),
       last_modified = (\<lambda>st cal. ''Thu, 01 Jan 1970 00:00:00 GMT''),
       serialize = (\<lambda>hs items. concat (map snd (hs @ items))),
       name_from_path = (\<lambda>st p cal. example_name p),
       xml_put = (\<lambda>st p body cal.
                   case example_name p of
                     None \<Rightarrow> st
                   | Some n \<Rightarrow> ((cal, n), body) # filter (\<lambda>e. fst e \<noteq> (cal, n)) st),
       xml_delete = (\<lambda>st p cal.
                      case example_name p of
                        None \<Rightarrow> (''deleted'', st)
                      | Some n \<Rightarrow> (''deleted'', filter (\<lambda>e. fst e \<noteq> (cal, n)) st)) \<rparr>"

text \<open>A fresh request for \<open>p\<close> with the headers \<open>hs\<close> and the body \<open>body\<close> on a
  storage \<open>st\<close>.\<close>

definition fresh_request ::
  "string \<Rightarrow> (string \<times> string) list \<Rightarrow> bytes \<Rightarrow> 's \<Rightarrow> 's request" where
  "fresh_request p hs body st =
     \<lparr> path = p, headers = map_of hs, rfile = body, content = None, answer = None,
       sent = [], wfile = [], storage = st \<rparr>"

text \<open>The storage with one event of \<open>alice\<close>.\<close>

definition one_event :: example_storage where
  "one_event = [((''alice/cal'', ''e.ics''), map of_char ''BEGIN:VEVENT'')]"

text \<open>A request of \<open>alice\<close>'s event whose Authorization header carries the base64
  of \<open>user\<close>: a payload without a colon.\<close>

definition malformed_request :: "example_storage request" where
  "malformed_request =
     fresh_request ''/alice/cal/e.ics'' [(''Authorization'', ''Basic dXNlcg=='')] [] one_event"

text \<open>The Authorization header of \<open>alice\<close> with her password (the base64 of
  \<open>alice:secret\<close>); her DELETE of her event with the ETag of the event; her PUT of an
  event that does not exist, and her PUT on the calendar itself, both with a body of
  five bytes; and a request for the root, whose calendar has no owner.\<close>

definition authorized :: "(string \<times> string) list" where
  "authorized = [(''Authorization'', ''Basic YWxpY2U6c2VjcmV0'')]"




definition root_request :: "example_storage request" where
  "root_request = fresh_request ''/'' [] [] one_event"

text \<open>The deployment with every calendar, the root too, owned by \<open>root\<close>.\<close>

definition owned_env :: "(example_storage, example_item) env" where
  "owned_env = example_env\<lparr>owner := (\<lambda>st cal. Some ''root'')\<rparr>"

text \<open>GET and HEAD requests of \<open>alice\<close> for her event and for an event that does
  not exist.\<close>

definition get_request :: "example_storage request" where
  "get_request = fresh_request ''/alice/cal/e.ics'' authorized [] one_event"

definition gone_request :: "example_storage request" where
  "gone_request = fresh_request ''/alice/cal/x.ics'' authorized [] one_event"

text \<open>Content-Type headers naming the codec \<open>ascii\<close> and a name that is no codec,
  and the two bytes of the UTF-8 form of U+00E9.\<close>

definition ascii_headers :: "string \<rightharpoonup> string" where
  "ascii_headers = map_of [(''Content-Type'', ''text/calendar; charset=ascii'')]"

definition bogus_headers :: "string \<rightharpoonup> string" where
  "bogus_headers = map_of [(''Content-Type'', ''text/calendar; charset=bogus'')]"

definition no_headers :: "string \<rightharpoonup> string" where
  "no_headers = map_of []"

definition e_acute_utf8 :: bytes where
  "e_acute_utf8 = [CHR 0xC3, CHR 0xA9]"

definition e_acute_latin1 :: bytes where
  "e_acute_latin1 = [CHR 0xE9]"

section \<open>Facts about the primitives\<close>

lemma split_from_nonempty: "split_from sep cur s \<noteq> []"
  by (induction sep cur s rule: split_from.induct) auto

lemma contains_split_from:
  "sep \<noteq> [] \<Longrightarrow> contains s sep \<Longrightarrow> 2 \<le> length (split_from sep cur s)"
proof (induction sep cur s rule: split_from.induct)
  case (1 sep cur)
  then show ?case by (simp add: startswith_def)
next
  case (2 sep cur x xs)
  show ?case
  proof (cases "take (length sep) (x # xs) = sep")
    case True
    have "split_from sep [] (drop (length sep - 1) xs) \<noteq> []"
      by (rule split_from_nonempty)
    then have "1 \<le> length (split_from sep [] (drop (length sep - 1) xs))"
      by (cases "split_from sep [] (drop (length sep - 1) xs)") simp_all
    with True "2.prems" show ?thesis by simp
  next
    case False
    with "2.prems" have "contains xs sep" by (simp add: startswith_def)
    with False "2.prems" "2.IH"(2) show ?thesis by simp
  qed
qed

lemma contains_split: "sep \<noteq> [] \<Longrightarrow> contains s sep \<Longrightarrow> 2 \<le> length (py_split sep s)"
  by (simp add: py_split_def contains_split_from)

lemma calendar_resolves: "\<exists>cal. calendar p = Some cal"
  by (simp add: calendar_def Let_def py_split_def split_from_nonempty)

lemma read_content_as_update:
  "\<exists>c f. read_content n r = r\<lparr>content := c, rfile := f\<rparr>"
proof (cases "n = 0")
  case True
  then have "read_content n r = r\<lparr>content := None, rfile := rfile r\<rparr>"
    by (simp add: read_content_def)
  then show ?thesis by blast
next
  case False
  then show ?thesis by (simp add: read_content_def Let_def) blast
qed

lemma read_content_fields [simp]:
  "path (read_content n r) = path r"
  "headers (read_content n r) = headers r"
  "answer (read_content n r) = answer r"
  "sent (read_content n r) = sent r"
  "wfile (read_content n r) = wfile r"
  "storage (read_content n r) = storage r"
  by (simp_all add: read_content_def Let_def)

section \<open>The authorization check\<close>




lemma check_unbound:
  assumes "acl env = Some has_right"
      and "calendar (path request) = Some cal"
      and "owner env (storage request) cal = None"
  shows "check env function request = Inl (NameError, request)"
  using assms by (simp add: check_def)

lemma check_refuses:
  assumes "acl env = Some has_right"
      and "calendar (path request) = Some cal"
      and "owner env (storage request) cal = Some own"
      and "credentials env (headers request) = Inr (user, password)"
      and "\<not> has_right (Some own) user password"
  shows "check env function request =
           Inr (request\<lparr>sent := sent request @
                  [Send_response 401,
                   Send_header ''WWW-Authenticate'' (Str challenge_header),
                   End_headers]\<rparr>)"
  using assms by (simp add: check_def UNAUTHORIZED_def)

lemma credentials_absent:
  "hdrs ''Authorization'' = None \<Longrightarrow> credentials env hdrs = Inr (None, None)"
  by (simp add: credentials_def)

lemma challenge_is_basic: "startswith challenge_header ''Basic''"
  by (simp add: challenge_header_def startswith_def)

lemma check_raises:
  assumes "acl env = Some has_right"
      and "calendar (path request) = Some cal"
      and "owner env (storage request) cal = Some own"
      and "headers request ''Authorization'' = Some authorization"
      and "authorization \<noteq> ''''"
      and "encode_ascii (py_strip whitespace (py_lstrip ''Basic'' authorization)) = Inr challenge"
      and "b64decode challenge = Inr payload"
      and "decode env (headers request) (Some payload) = Inr t"
      and "length (py_split [58] t) \<noteq> 2"
  shows "check env function request = Inl (ValueError, request)"
proof -
  have "credentials env (headers request) = Inl ValueError"
    using assms(4-9) by (auto simp: credentials_def split: list.splits)
  with assms(1-3) show ?thesis by (simp add: check_def)
qed

lemma root_request_facts:
  "acl example_env = Some example_has_right"
  "calendar (path root_request) = Some ''.''"
  "owner example_env (storage root_request) ''.'' = None"
  subgoal by (simp add: example_env_def)
  subgoal by code_simp
  subgoal by code_simp
  done

text \<open>
  C4 (authorization bypass), evaluated where it fails. Of the three cases, the two of
  line 60 hold (lemma \<open>check_open\<close>; the first never arises, since a calendar is
  always resolved). The third is lines 63 to 65: the calendar has no owner and
  personal calendars are on. The module never binds \<^verbatim>\<open>PERSONAL\<close>, so with an
  access-control collaborator configured a request for a calendar without owner, here
  the root of the example deployment, raises NameError at line 63: the handler is not
  invoked and nothing is sent.
\<close>

theorem check_personal_unbound:
  "acl example_env = Some example_has_right
   \<and> calendar (path root_request) = Some ''.''
   \<and> owner example_env (storage root_request) ''.'' = None
   \<and> check example_env (do_HEAD_body example_env) root_request = Inl (NameError, root_request)"
  using root_request_facts check_unbound [OF root_request_facts, of "do_HEAD_body example_env"]
  by simp

text \<open>
  C3 (authorization denial). With an access-control collaborator configured and a
  resolved calendar that has an owner, a request whose user and password
  \<^verbatim>\<open>has_right\<close> rejects gets, after whatever was sent before, exactly the status 401,
  the header WWW-Authenticate with a Basic challenge, and the end of the headers. The
  result does not depend on \<open>function\<close>: the wrapped handler is not invoked, so the
  storage, the answer and the written body are those of the request as it came. With no
  Authorization header the user and password handed to \<^verbatim>\<open>has_right\<close> are both None.
\<close>

theorem check_denial:
  assumes "acl env = Some has_right"
      and "calendar (path request) = Some cal"
      and "owner env (storage request) cal = Some own"
      and "credentials env (headers request) = Inr (user, password)"
      and "\<not> has_right (Some own) user password"
  shows "check env function request =
           Inr (request\<lparr>sent := sent request @
                  [Send_response 401,
                   Send_header ''WWW-Authenticate'' (Str challenge_header),
                   End_headers]\<rparr>)
         \<and> startswith challenge_header ''Basic''
         \<and> (headers request ''Authorization'' = None \<longrightarrow> user = None \<and> password = None)"
  using assms check_refuses [OF assms] challenge_is_basic
  by (auto simp: credentials_absent)

theorem check_denial_witness:
  "acl example_env = Some example_has_right
   \<and> calendar (path (fresh_request ''/alice/cal/e.ics'' [] [] one_event)) = Some ''alice/cal''
   \<and> owner example_env (storage (fresh_request ''/alice/cal/e.ics'' [] [] one_event)) ''alice/cal''
       = Some ''alice''
   \<and> credentials example_env (headers (fresh_request ''/alice/cal/e.ics'' [] [] one_event))
       = Inr (None, None)
   \<and> \<not> example_has_right (Some ''alice'') None None
   \<and> check example_env (do_DELETE_body example_env)
        (fresh_request ''/alice/cal/e.ics'' [] [] one_event)
       = Inr ((fresh_request ''/alice/cal/e.ics'' [] [] one_event)
               \<lparr>sent := [Send_response 401,
                         Send_header ''WWW-Authenticate'' (Str challenge_header),
                         End_headers]\<rparr>)"
proof -
  let ?r = "fresh_request ''/alice/cal/e.ics'' [] [] one_event"
  have a: "acl example_env = Some example_has_right" by (simp add: example_env_def)
  have c: "calendar (path ?r) = Some ''alice/cal''" by code_simp
  have ow: "owner example_env (storage ?r) ''alice/cal'' = Some ''alice''" by code_simp
  have cr: "credentials example_env (headers ?r) = Inr (None, None)" by code_simp
  have h: "\<not> example_has_right (Some ''alice'') None None" by code_simp
  have s: "sent ?r = []" by (simp add: fresh_request_def)
  from check_denial [OF a c ow cr h, of "do_DELETE_body example_env"] a c ow cr h s
  show ?thesis by simp
qed

lemma malformed_request_facts:
  "acl example_env = Some example_has_right"
  "calendar (path malformed_request) = Some ''alice/cal''"
  "owner example_env (storage malformed_request) ''alice/cal'' = Some ''alice''"
  "headers malformed_request ''Authorization'' = Some ''Basic dXNlcg==''"
  "''Basic dXNlcg=='' \<noteq> ''''"
  "encode_ascii (py_strip whitespace (py_lstrip ''Basic'' ''Basic dXNlcg=='')) = Inr ''dXNlcg==''"
  "b64decode ''dXNlcg=='' = Inr ''user''"
  "decode example_env (headers malformed_request) (Some ''user'') = Inr (map of_char ''user'' :: unicode)"
  "length (py_split [58] (map of_char ''user'' :: unicode)) \<noteq> 2"
  subgoal by (simp add: example_env_def)
  subgoal by code_simp
  subgoal by code_simp
  subgoal by code_simp
  subgoal by simp
  subgoal by code_simp
  subgoal by code_simp
  subgoal by code_simp
  subgoal by code_simp
  done

text \<open>
  C5 (malformed credentials), on an input where it does not hold. That a payload which
  does not split into a user and a password is treated as no credentials and answered
  with 401 fails: the request of \<open>malformed_request\<close>, which without its Authorization
  header would be refused with 401, raises ValueError and sends nothing.
\<close>

theorem check_malformed_credentials_counterexample:
  "check example_env (do_DELETE_body example_env) malformed_request
     = Inl (ValueError, malformed_request)
   \<and> check example_env (do_DELETE_body example_env) malformed_request
     \<noteq> Inr (malformed_request\<lparr>sent := sent malformed_request @
            [Send_response 401,
             Send_header ''WWW-Authenticate'' (Str challenge_header),
             End_headers]\<rparr>)"
  using check_raises [OF malformed_request_facts, of "do_DELETE_body example_env"]
  by simp

text \<open>
  C5, amended. When \<^verbatim>\<open>_check\<close> examines the credentials (an access-control
  collaborator is configured and the calendar has an owner) and the Authorization
  header is present and not empty, and its base64 payload decodes to a text that does
  not split at colons into exactly two pieces, \<^verbatim>\<open>_check\<close> raises ValueError: the
  request is left as it came, no response is sent and the handler is not invoked.
\<close>

theorem check_malformed_credentials:
  assumes "acl env = Some has_right"
      and "calendar (path request) = Some cal"
      and "owner env (storage request) cal = Some own"
      and "headers request ''Authorization'' = Some authorization"
      and "authorization \<noteq> ''''"
      and "encode_ascii (py_strip whitespace (py_lstrip ''Basic'' authorization)) = Inr challenge"
      and "b64decode challenge = Inr payload"
      and "decode env (headers request) (Some payload) = Inr t"
      and "length (py_split [58] t) \<noteq> 2"
  shows "check env function request = Inl (ValueError, request)"
  using assms by (rule check_raises)

theorem check_malformed_credentials_witness:
  "headers malformed_request ''Authorization'' = Some ''Basic dXNlcg==''
   \<and> b64decode ''dXNlcg=='' = Inr ''user''
   \<and> length (py_split [58] (map of_char ''user'' :: unicode)) \<noteq> 2
   \<and> check example_env (do_HEAD_body example_env) malformed_request
     = Inl (ValueError, malformed_request)"
  using check_malformed_credentials [OF malformed_request_facts, of "do_HEAD_body example_env"]
        malformed_request_facts(4,7,9)
  by simp

section \<open>The path resolver\<close>

text \<open>The example of the specification resolves as it says: a traversal inside the
  path and a trailing item name do not change the address.\<close>

lemma calendar_example: "calendar ''/a/../b/c.ics'' = Some ''b'' \<and> calendar ''/b'' = Some ''b''"
  by code_simp

text \<open>
  C6 (path normalization invariance), evaluated where it fails. The leading slash is
  stripped before \<^verbatim>\<open>normpath\<close> runs, so the path is normalized as a relative one
  and a \<open>..\<close> at its top is kept: \<open>/../b\<close> and \<open>/b\<close> differ only by a traversal
  segment and resolve to different addresses, and the addresses of \<open>/../b\<close> and
  \<open>/../../etc/passwd\<close> lie above the root of the calendars.
\<close>

theorem calendar_traversal_escapes:
  "calendar ''/../b'' = Some ''../b''
   \<and> calendar ''/b'' = Some ''b''
   \<and> calendar ''/../../etc/passwd'' = Some ''../..''"
  by code_simp

text \<open>
  C7 (empty path), evaluated where it fails. \<^verbatim>\<open>normpath\<close> turns the empty string into
  \<open>.\<close> and \<^verbatim>\<open>split\<close> never returns an empty list, so the test
  \<^verbatim>\<open>if attributes\<close> never fails: the empty path and the paths of slashes resolve to
  the calendar of address \<open>.\<close>, not to None. \<^verbatim>\<open>_check\<close> then treats the request as one
  for a calendar: in the deployment where every calendar has an owner, the request
  for \<open>/\<close> without credentials is refused with 401 instead of passing unchecked.
\<close>

theorem calendar_empty_path:
  "calendar '''' = Some ''.''
   \<and> calendar ''/'' = Some ''.''
   \<and> calendar ''///'' = Some ''.''
   \<and> map_sum fst sent (check owned_env (do_HEAD_body owned_env) root_request)
     = Inr [Send_response 401,
            Send_header ''WWW-Authenticate'' (Str challenge_header),
            End_headers]"
  by code_simp

section \<open>The conditional operations\<close>














section \<open>GET and HEAD\<close>

lemma read_content_again:
  "\<exists>c f. read_content n (r\<lparr>content := cc, rfile := ff\<rparr>) = r\<lparr>content := c, rfile := f\<rparr>"
proof -
  from read_content_as_update [where n = n and r = "r\<lparr>content := cc, rfile := ff\<rparr>"]
  obtain c f where "read_content n (r\<lparr>content := cc, rfile := ff\<rparr>)
                    = r\<lparr>content := cc, rfile := ff, content := c, rfile := f\<rparr>"
    by blast
  then have "read_content n (r\<lparr>content := cc, rfile := ff\<rparr>) = r\<lparr>content := c, rfile := f\<rparr>"
    by simp
  then show ?thesis by blast
qed

lemma head_frame:
  "check env (do_HEAD_body env) (r\<lparr>content := c, rfile := f\<rparr>)
   = map_sum (map_prod id (\<lambda>h. h\<lparr>content := c, rfile := f\<rparr>))
       (\<lambda>h. h\<lparr>content := c, rfile := f\<rparr>) (check env (do_HEAD_body env) r)"
  by (auto simp: check_def do_HEAD_body_def Let_def split: option.splits sum.splits prod.splits)

lemma head_body_effect:
  assumes "do_HEAD_body env r = Inr k"
  shows "wfile k = wfile r \<and> storage k = storage r
         \<and> (\<forall>a. answer k = Some a \<longrightarrow>
               (\<exists>lm etag. sent k = sent r @
                  [Send_response 200,
                   Send_header ''Content-Length'' (Len (length a)),
                   Send_header ''Content-Type'' (Str ''text/calendar''),
                   Send_header ''Last-Modified'' (Str lm),
                   Send_header ''ETag'' (Str etag),
                   End_headers]))"
  using assms
  by (auto simp: do_HEAD_body_def Let_def OK_def split: option.splits sum.splits prod.splits if_splits)

lemma check_head_effect:
  assumes "check env (do_HEAD_body env) r = Inr k"
  shows "wfile k = wfile r \<and> storage k = storage r
         \<and> (\<forall>a. answer r = None \<longrightarrow> answer k = Some a \<longrightarrow>
               (\<exists>lm etag. sent k = sent r @
                  [Send_response 200,
                   Send_header ''Content-Length'' (Len (length a)),
                   Send_header ''Content-Type'' (Str ''text/calendar''),
                   Send_header ''Last-Modified'' (Str lm),
                   Send_header ''ETag'' (Str etag),
                   End_headers]))"
proof (cases "check env (do_HEAD_body env) r = do_HEAD_body env r")
  case True
  with assms head_body_effect [of env r k] show ?thesis by simp
next
  case False
  with assms have "k = r\<lparr>sent := sent r @
                             [Send_response UNAUTHORIZED,
                              Send_header ''WWW-Authenticate'' (Str challenge_header),
                              End_headers]\<rparr>"
    by (auto simp: check_def split: option.splits sum.splits prod.splits if_splits)
  then show ?thesis by simp
qed

text \<open>
  C9 (GET and HEAD). \<open>do_GET\<close> and \<open>do_HEAD\<close> are the decorated handlers, run on the
  same request and storage. When HEAD raises, GET raises the same error, having sent,
  written and stored the same. Otherwise GET has sent exactly the status line and
  headers HEAD has sent, holds the same answer and leaves the same storage; HEAD has
  written no body, and GET has written the answer as the body, or nothing when HEAD
  left no answer (the item is gone, 410, or the request was refused). On a fresh request
  (\<^verbatim>\<open>_answer\<close> None, as \<^verbatim>\<open>__init__\<close> sets it), when HEAD leaves an answer, the response
  is 200 with Content-Length the length of that answer, then Content-Type,
  Last-Modified and ETag: the body GET writes has the declared length.
\<close>

theorem get_head_consistency:
  "(\<forall>e h. do_HEAD env request = Inl (e, h) \<longrightarrow>
         (\<exists>g. do_GET env request = Inl (e, g)
              \<and> sent g = sent h
              \<and> answer g = answer h
              \<and> storage g = storage h
              \<and> wfile g = wfile h))
   \<and> (\<forall>h. do_HEAD env request = Inr h \<longrightarrow>
         (\<exists>g. do_GET env request = Inr g
              \<and> sent g = sent h
              \<and> answer g = answer h
              \<and> storage g = storage h
              \<and> wfile h = wfile request
              \<and> wfile g = wfile request @ (case answer h of None \<Rightarrow> [] | Some a \<Rightarrow> a)))
   \<and> (\<forall>h a. do_HEAD env request = Inr h \<longrightarrow> answer request = None \<longrightarrow> answer h = Some a \<longrightarrow>
         (\<exists>lm etag. sent h = sent request @
            [Send_response 200,
             Send_header ''Content-Length'' (Len (length a)),
             Send_header ''Content-Type'' (Str ''text/calendar''),
             Send_header ''Last-Modified'' (Str lm),
             Send_header ''ETag'' (Str etag),
             End_headers]))"
proof (cases "content_length (headers request)")
  case (Inl e)
  then have "do_HEAD env request = Inl (e, request)" "do_GET env request = Inl (e, request)"
    by (simp_all add: do_HEAD_def do_GET_def log_request_content_def)
  then show ?thesis by simp
next
  case (Inr n)
  let ?K = "check env (do_HEAD_body env)"
  from read_content_as_update [where n = n and r = request] obtain c1 f1 where
    r1: "read_content n request = request\<lparr>content := c1, rfile := f1\<rparr>"
    by blast
  from read_content_again [where n = n and r = request and cc = c1 and ff = f1] obtain c2 f2 where
    r2: "read_content n (request\<lparr>content := c1, rfile := f1\<rparr>)
         = request\<lparr>content := c2, rfile := f2\<rparr>"
    by blast
  have head: "do_HEAD env request
              = map_sum (map_prod id (\<lambda>h. h\<lparr>content := c1, rfile := f1\<rparr>))
                  (\<lambda>h. h\<lparr>content := c1, rfile := f1\<rparr>) (?K request)"
    using Inr by (simp add: do_HEAD_def log_request_content_def r1 head_frame)
  have inner: "do_HEAD env (request\<lparr>content := c1, rfile := f1\<rparr>)
              = map_sum (map_prod id (\<lambda>h. h\<lparr>content := c2, rfile := f2\<rparr>))
                  (\<lambda>h. h\<lparr>content := c2, rfile := f2\<rparr>) (?K request)"
    using Inr by (simp add: do_HEAD_def log_request_content_def r2 head_frame)
  have get: "do_GET env request = do_GET_body env (request\<lparr>content := c1, rfile := f1\<rparr>)"
    using Inr by (simp add: do_GET_def log_request_content_def r1)
  show ?thesis
  proof (cases "?K request")
    case (Inl raised)
    obtain e k where raised: "raised = (e, k)" by (cases raised)
    from Inl raised head have h: "do_HEAD env request = Inl (e, k\<lparr>content := c1, rfile := f1\<rparr>)"
      by simp
    from Inl raised inner get
    have g: "do_GET env request = Inl (e, k\<lparr>content := c2, rfile := f2\<rparr>)"
      by (simp add: do_GET_body_def)
    from h g show ?thesis by simp
  next
    case (Inr k)
    from check_head_effect [OF Inr] have k: "wfile k = wfile request" "storage k = storage request"
      and s: "\<And>a. answer request = None \<Longrightarrow> answer k = Some a \<Longrightarrow>
             (\<exists>lm etag. sent k = sent request @
                [Send_response 200,
                 Send_header ''Content-Length'' (Len (length a)),
                 Send_header ''Content-Type'' (Str ''text/calendar''),
                 Send_header ''Last-Modified'' (Str lm),
                 Send_header ''ETag'' (Str etag),
                 End_headers])"
      by blast+
    from Inr head have h: "do_HEAD env request = Inr (k\<lparr>content := c1, rfile := f1\<rparr>)"
      by simp
    from Inr inner get have g: "do_GET env request =
        (case answer k of
           None \<Rightarrow> Inr (k\<lparr>content := c2, rfile := f2\<rparr>)
         | Some a \<Rightarrow> if a \<noteq> [] then Inr (k\<lparr>content := c2, rfile := f2, wfile := wfile k @ a\<rparr>)
                     else Inr (k\<lparr>content := c2, rfile := f2\<rparr>))"
      by (simp add: do_GET_body_def split: option.splits)
    show ?thesis
    proof (intro conjI allI impI)
      fix e h' assume "do_HEAD env request = Inl (e, h')"
      with h show "\<exists>g. do_GET env request = Inl (e, g)
              \<and> sent g = sent h'
              \<and> answer g = answer h'
              \<and> storage g = storage h'
              \<and> wfile g = wfile h'"
        by simp
    next
      fix h' assume "do_HEAD env request = Inr h'"
      with h have h': "h' = k\<lparr>content := c1, rfile := f1\<rparr>" by simp
      show "\<exists>g. do_GET env request = Inr g
            \<and> sent g = sent h'
            \<and> answer g = answer h'
            \<and> storage g = storage h'
            \<and> wfile h' = wfile request
            \<and> wfile g = wfile request @ (case answer h' of None \<Rightarrow> [] | Some a \<Rightarrow> a)"
        using g h' k by (auto split: option.splits)
    next
      fix h' a
      assume "do_HEAD env request = Inr h'" and n: "answer request = None"
         and "answer h' = Some a"
      with h have "answer k = Some a" and "sent h' = sent k" by auto
      with s [OF n] show "\<exists>lm etag. sent h' = sent request @
          [Send_response 200,
           Send_header ''Content-Length'' (Len (length a)),
           Send_header ''Content-Type'' (Str ''text/calendar''),
           Send_header ''Last-Modified'' (Str lm),
           Send_header ''ETag'' (Str etag),
           End_headers]"
        by simp
    qed
  qed
qed

theorem get_head_consistency_witness:
  "(\<exists>h g. do_HEAD example_env get_request = Inr h
        \<and> do_GET example_env get_request = Inr g
        \<and> answer get_request = None
        \<and> answer h = Some ''BEGIN:VEVENT''
        \<and> sent g = sent h
        \<and> sent h = [Send_response 200,
                     Send_header ''Content-Length'' (Len 12),
                     Send_header ''Content-Type'' (Str ''text/calendar''),
                     Send_header ''Last-Modified'' (Str ''Thu, 01 Jan 1970 00:00:00 GMT''),
                     Send_header ''ETag'' (Str ''etag-BEGIN:VEVENT''),
                     End_headers]
        \<and> wfile h = []
        \<and> wfile g = ''BEGIN:VEVENT'')
   \<and> (\<exists>h g. do_HEAD example_env gone_request = Inr h
        \<and> do_GET example_env gone_request = Inr g
        \<and> answer h = None
        \<and> sent g = sent h
        \<and> sent h = [Send_response 410]
        \<and> wfile g = [])"
proof -
  have "\<not> isl (do_HEAD example_env get_request)" by code_simp
  then obtain h where h: "do_HEAD example_env get_request = Inr h"
    by (cases "do_HEAD example_env get_request") auto
  have "map_sum fst answer (do_HEAD example_env get_request) = Inr (Some ''BEGIN:VEVENT'')"
    by code_simp
  with h have a: "answer h = Some ''BEGIN:VEVENT''" by simp
  have "map_sum fst sent (do_HEAD example_env get_request)
        = Inr [Send_response 200,
               Send_header ''Content-Length'' (Len 12),
               Send_header ''Content-Type'' (Str ''text/calendar''),
               Send_header ''Last-Modified'' (Str ''Thu, 01 Jan 1970 00:00:00 GMT''),
               Send_header ''ETag'' (Str ''etag-BEGIN:VEVENT''),
               End_headers]"
    by code_simp
  with h have s: "sent h = [Send_response 200,
               Send_header ''Content-Length'' (Len 12),
               Send_header ''Content-Type'' (Str ''text/calendar''),
               Send_header ''Last-Modified'' (Str ''Thu, 01 Jan 1970 00:00:00 GMT''),
               Send_header ''ETag'' (Str ''etag-BEGIN:VEVENT''),
               End_headers]"
    by simp
  have f: "answer get_request = None" "wfile get_request = []"
    by (simp_all add: get_request_def fresh_request_def)
  from get_head_consistency [of example_env get_request] h obtain g where
    g: "do_GET example_env get_request = Inr g" "sent g = sent h" "wfile h = wfile get_request"
       "wfile g = wfile get_request @ (case answer h of None \<Rightarrow> [] | Some a \<Rightarrow> a)"
    by blast
  have 1: "\<exists>h g. do_HEAD example_env get_request = Inr h
        \<and> do_GET example_env get_request = Inr g
        \<and> answer get_request = None
        \<and> answer h = Some ''BEGIN:VEVENT''
        \<and> sent g = sent h
        \<and> sent h = [Send_response 200,
                     Send_header ''Content-Length'' (Len 12),
                     Send_header ''Content-Type'' (Str ''text/calendar''),
                     Send_header ''Last-Modified'' (Str ''Thu, 01 Jan 1970 00:00:00 GMT''),
                     Send_header ''ETag'' (Str ''etag-BEGIN:VEVENT''),
                     End_headers]
        \<and> wfile h = []
        \<and> wfile g = ''BEGIN:VEVENT''"
    using h g a s f by simp
  have "\<not> isl (do_HEAD example_env gone_request)" by code_simp
  then obtain h' where h': "do_HEAD example_env gone_request = Inr h'"
    by (cases "do_HEAD example_env gone_request") auto
  have "map_sum fst answer (do_HEAD example_env gone_request) = Inr None" by code_simp
  with h' have a': "answer h' = None" by simp
  have "map_sum fst sent (do_HEAD example_env gone_request) = Inr [Send_response 410]"
    by code_simp
  with h' have s': "sent h' = [Send_response 410]" by simp
  have f': "wfile gone_request = []" by (simp add: gone_request_def fresh_request_def)
  from get_head_consistency [of example_env gone_request] h' obtain g' where
    g': "do_GET example_env gone_request = Inr g'" "sent g' = sent h'"
        "wfile g' = wfile gone_request @ (case answer h' of None \<Rightarrow> [] | Some a \<Rightarrow> a)"
    by blast
  have 2: "\<exists>h g. do_HEAD example_env gone_request = Inr h
        \<and> do_GET example_env gone_request = Inr g
        \<and> answer h = None
        \<and> sent g = sent h
        \<and> sent h = [Send_response 410]
        \<and> wfile g = []"
    using h' g' a' s' f' by simp
  from 1 2 show ?thesis by blast
qed

section \<open>The charset resolver\<close>

lemma bytes_decode_iso8859_1 [simp]:
  "bytes_decode env text ''iso8859-1'' = Inr (decode_iso8859_1 text)"
  by (simp add: bytes_decode_def)

lemma bytes_decode_utf8:
  "bytes_decode env text ''utf-8'' = Inl e \<Longrightarrow> e = UnicodeDecodeError"
  by (auto simp: bytes_decode_def decode_utf8_def split: option.splits)

lemma try_charsets_first:
  "\<forall>d\<in>set pre. bytes_decode env text d = Inl UnicodeDecodeError \<Longrightarrow>
   bytes_decode env text c = Inr u \<Longrightarrow>
   try_charsets env text (pre @ c # post) = Inr u"
  by (induction pre) simp_all

lemma try_charsets_raises:
  "\<forall>d\<in>set pre. bytes_decode env text d = Inl UnicodeDecodeError \<Longrightarrow>
   bytes_decode env text c = Inl e \<Longrightarrow> e \<noteq> UnicodeDecodeError \<Longrightarrow>
   try_charsets env text (pre @ c # post) = Inl e"
  by (induction pre) simp_all

lemma try_charsets_exhausted:
  "try_charsets env text cs = Inl UnicodeDecodeError \<Longrightarrow>
   \<forall>c\<in>set cs. bytes_decode env text c = Inl UnicodeDecodeError"
  by (induction cs) (auto split: sum.splits if_splits)

lemma try_charsets_known:
  "\<forall>c\<in>set cs. \<forall>e. bytes_decode env text c = Inl e \<longrightarrow> e = UnicodeDecodeError \<Longrightarrow>
   \<exists>u. try_charsets env text (cs @ [''iso8859-1'']) = Inr u"
  by (induction cs) (auto split: sum.splits)

lemma charsets_snoc:
  "charsets env hdrs =
     ((case declared_charset hdrs of None \<Rightarrow> [] | Some c \<Rightarrow> [c]) @ [encoding env, ''utf-8''])
     @ [''iso8859-1'']"
  by (simp add: charsets_def)

lemma decode_never_exhausted: "decode env hdrs (Some text) \<noteq> Inl UnicodeDecodeError"
proof
  assume "decode env hdrs (Some text) = Inl UnicodeDecodeError"
  then have "\<forall>c\<in>set (charsets env hdrs). bytes_decode env text c = Inl UnicodeDecodeError"
    by (simp add: decode_def try_charsets_exhausted)
  then have "bytes_decode env text ''iso8859-1'' = Inl UnicodeDecodeError"
    by (simp add: charsets_def)
  then show False by simp
qed

text \<open>
  C8 (charset resolution order), on inputs where it does not hold as stated. With the declared
  charset \<open>bogus\<close> the first candidate that decodes \<open>abc\<close> is \<open>utf-8\<close>, yet
  \<^verbatim>\<open>_decode\<close> raises the LookupError of the first candidate: only UnicodeDecodeError
  is caught. And with the default charset \<open>ascii\<close> and no declared charset, the two
  bytes C3 A9 are invalid under the default charset and valid iso8859-1, yet they
  decode under the utf-8 candidate to U+00E9, not to the two characters iso8859-1
  gives.
\<close>

theorem decode_order_counterexample:
  "charsets example_env bogus_headers = [''bogus'', ''utf-8'', ''utf-8'', ''iso8859-1'']
   \<and> bytes_decode example_env ''abc'' ''bogus'' = Inl LookupError
   \<and> bytes_decode example_env ''abc'' ''utf-8'' = Inr [97, 98, 99]
   \<and> decode example_env bogus_headers (Some ''abc'') = Inl LookupError
   \<and> charsets (example_env\<lparr>encoding := ''ascii''\<rparr>) no_headers
      = [''ascii'', ''utf-8'', ''iso8859-1'']
   \<and> bytes_decode (example_env\<lparr>encoding := ''ascii''\<rparr>) e_acute_utf8 ''ascii''
      = Inl UnicodeDecodeError
   \<and> decode (example_env\<lparr>encoding := ''ascii''\<rparr>) no_headers (Some e_acute_utf8) = Inr [233]
   \<and> decode_iso8859_1 e_acute_utf8 = [195, 169]"
  by code_simp

text \<open>
  C8, amended. The candidates are, in this order, the charset of the Content-Type
  header if it names one, the configured default, \<open>utf-8\<close> and \<open>iso8859-1\<close>. They are
  tried in that order: when every candidate before one raises UnicodeDecodeError on
  the body and that one decodes it, \<^verbatim>\<open>_decode\<close> returns its decoding; when that one
  raises another error (the LookupError of an unknown name), \<^verbatim>\<open>_decode\<close> raises that
  error. The error after the loop is raised only if every candidate raises
  UnicodeDecodeError. A body that raises UnicodeDecodeError under every candidate
  before \<open>iso8859-1\<close> (the declared charset, the default and \<open>utf-8\<close>) decodes to
  the text of the direct iso8859-1 decoding.
\<close>

theorem decode_order:
  "charsets env hdrs =
     (case declared_charset hdrs of None \<Rightarrow> [] | Some c \<Rightarrow> [c])
     @ [encoding env, ''utf-8'', ''iso8859-1'']
   \<and> (\<forall>pre c post u.
         charsets env hdrs = pre @ c # post \<longrightarrow>
         (\<forall>d\<in>set pre. bytes_decode env text d = Inl UnicodeDecodeError) \<longrightarrow>
         bytes_decode env text c = Inr u \<longrightarrow>
         decode env hdrs (Some text) = Inr u)
   \<and> (\<forall>pre c post e.
         charsets env hdrs = pre @ c # post \<longrightarrow>
         (\<forall>d\<in>set pre. bytes_decode env text d = Inl UnicodeDecodeError) \<longrightarrow>
         bytes_decode env text c = Inl e \<longrightarrow> e \<noteq> UnicodeDecodeError \<longrightarrow>
         decode env hdrs (Some text) = Inl e)
   \<and> (decode env hdrs (Some text) = Inl UnicodeDecodeError \<longrightarrow>
         (\<forall>c\<in>set (charsets env hdrs). bytes_decode env text c = Inl UnicodeDecodeError))
   \<and> ((\<forall>c\<in>set (butlast (charsets env hdrs)).
          bytes_decode env text c = Inl UnicodeDecodeError) \<longrightarrow>
         decode env hdrs (Some text) = Inr (decode_iso8859_1 text))"
proof (intro conjI allI impI)
  show "charsets env hdrs =
     (case declared_charset hdrs of None \<Rightarrow> [] | Some c \<Rightarrow> [c])
     @ [encoding env, ''utf-8'', ''iso8859-1'']"
    by (simp add: charsets_def)
next
  fix pre c post u
  assume "charsets env hdrs = pre @ c # post"
     and "\<forall>d\<in>set pre. bytes_decode env text d = Inl UnicodeDecodeError"
     and "bytes_decode env text c = Inr u"
  then show "decode env hdrs (Some text) = Inr u"
    by (simp add: decode_def try_charsets_first)
next
  fix pre c post e
  assume "charsets env hdrs = pre @ c # post"
     and "\<forall>d\<in>set pre. bytes_decode env text d = Inl UnicodeDecodeError"
     and "bytes_decode env text c = Inl e" and "e \<noteq> UnicodeDecodeError"
  then show "decode env hdrs (Some text) = Inl e"
    by (simp add: decode_def try_charsets_raises)
next
  assume "decode env hdrs (Some text) = Inl UnicodeDecodeError"
  then show "\<forall>c\<in>set (charsets env hdrs). bytes_decode env text c = Inl UnicodeDecodeError"
    by (simp add: decode_never_exhausted)
next
  assume a: "\<forall>c\<in>set (butlast (charsets env hdrs)).
          bytes_decode env text c = Inl UnicodeDecodeError"
  have "butlast (charsets env hdrs) =
          (case declared_charset hdrs of None \<Rightarrow> [] | Some c \<Rightarrow> [c]) @ [encoding env, ''utf-8'']"
    by (subst charsets_snoc) (simp only: butlast_snoc)
  with a have "\<forall>d\<in>set ((case declared_charset hdrs of None \<Rightarrow> [] | Some c \<Rightarrow> [c])
                          @ [encoding env, ''utf-8'']).
                 bytes_decode env text d = Inl UnicodeDecodeError"
    by simp
  then have "try_charsets env text
               (((case declared_charset hdrs of None \<Rightarrow> [] | Some c \<Rightarrow> [c])
                  @ [encoding env, ''utf-8'']) @ ''iso8859-1'' # [])
             = Inr (decode_iso8859_1 text)"
    by (rule try_charsets_first) simp
  then show "decode env hdrs (Some text) = Inr (decode_iso8859_1 text)"
    by (simp add: decode_def charsets_def)
qed

theorem decode_order_witness:
  "charsets example_env no_headers = [''utf-8'', ''utf-8'', ''iso8859-1'']
   \<and> bytes_decode example_env e_acute_latin1 ''utf-8'' = Inl UnicodeDecodeError
   \<and> decode example_env no_headers (Some e_acute_latin1) = Inr (decode_iso8859_1 e_acute_latin1)
   \<and> decode_iso8859_1 e_acute_latin1 = [233]
   \<and> charsets example_env ascii_headers = [''ascii''] @ ''utf-8'' # [''utf-8'', ''iso8859-1'']
   \<and> bytes_decode example_env e_acute_utf8 ''ascii'' = Inl UnicodeDecodeError
   \<and> bytes_decode example_env e_acute_utf8 ''utf-8'' = Inr [233]
   \<and> decode example_env ascii_headers (Some e_acute_utf8) = Inr [233]"
proof -
  have c: "charsets example_env no_headers = [''utf-8'', ''utf-8'', ''iso8859-1'']"
    by code_simp
  have u: "bytes_decode example_env e_acute_latin1 ''utf-8'' = Inl UnicodeDecodeError"
    by code_simp
  have l: "decode_iso8859_1 e_acute_latin1 = [233]" by code_simp
  from c u have "\<forall>c\<in>set (butlast (charsets example_env no_headers)).
                  bytes_decode example_env e_acute_latin1 c = Inl UnicodeDecodeError"
    by simp
  with decode_order [of example_env no_headers e_acute_latin1]
  have 1: "decode example_env no_headers (Some e_acute_latin1)
           = Inr (decode_iso8859_1 e_acute_latin1)"
    by blast
  have c': "charsets example_env ascii_headers = [''ascii''] @ ''utf-8'' # [''utf-8'', ''iso8859-1'']"
    by code_simp
  have a: "bytes_decode example_env e_acute_utf8 ''ascii'' = Inl UnicodeDecodeError"
    by code_simp
  have u': "bytes_decode example_env e_acute_utf8 ''utf-8'' = Inr [233]" by code_simp
  from a have "\<forall>d\<in>set [''ascii'']. bytes_decode example_env e_acute_utf8 d = Inl UnicodeDecodeError"
    by simp
  with decode_order [of example_env ascii_headers e_acute_utf8] c' u'
  have 2: "decode example_env ascii_headers (Some e_acute_utf8) = Inr [233]"
    by blast
  from c u 1 l c' a u' 2 show ?thesis by blast
qed

text \<open>
  C10 (decode totality), on an input where it does not hold as stated. No charset is
  declared, so the condition on the declared charset holds, but the configured default \<open>bogus\<close> names no codec and
  \<^verbatim>\<open>_decode\<close> raises LookupError.
\<close>

theorem decode_total_counterexample:
  "declared_charset no_headers = None
   \<and> encoding (example_env\<lparr>encoding := ''bogus''\<rparr>) = ''bogus''
   \<and> bytes_decode (example_env\<lparr>encoding := ''bogus''\<rparr>) ''abc'' ''bogus'' = Inl LookupError
   \<and> decode (example_env\<lparr>encoding := ''bogus''\<rparr>) no_headers (Some ''abc'') = Inl LookupError"
  by code_simp

text \<open>
  C10, amended. When the declared charset (if any) and the configured default charset
  name known codecs, that is, decoding the body under them succeeds or raises
  UnicodeDecodeError and nothing else, \<^verbatim>\<open>_decode\<close> returns a decoded string for
  every byte string. The error after the loop is never raised, for any byte string,
  headers and configuration: \<open>iso8859-1\<close>, the last candidate, decodes everything.
\<close>

theorem decode_total:
  "((\<forall>c. declared_charset hdrs = Some c \<longrightarrow>
          (\<forall>e. bytes_decode env text c = Inl e \<longrightarrow> e = UnicodeDecodeError))
     \<and> (\<forall>e. bytes_decode env text (encoding env) = Inl e \<longrightarrow> e = UnicodeDecodeError)
     \<longrightarrow> (\<exists>u. decode env hdrs (Some text) = Inr u))
   \<and> decode env hdrs (Some text) \<noteq> Inl UnicodeDecodeError"
proof (intro conjI impI)
  assume a: "(\<forall>c. declared_charset hdrs = Some c \<longrightarrow>
          (\<forall>e. bytes_decode env text c = Inl e \<longrightarrow> e = UnicodeDecodeError))
     \<and> (\<forall>e. bytes_decode env text (encoding env) = Inl e \<longrightarrow> e = UnicodeDecodeError)"
  have "\<forall>c\<in>set ((case declared_charset hdrs of None \<Rightarrow> [] | Some c \<Rightarrow> [c])
                   @ [encoding env, ''utf-8'']).
          \<forall>e. bytes_decode env text c = Inl e \<longrightarrow> e = UnicodeDecodeError"
  proof (cases "declared_charset hdrs")
    case None
    with a bytes_decode_utf8 [of env "text"] show ?thesis by simp
  next
    case (Some c)
    with a bytes_decode_utf8 [of env "text"] show ?thesis by simp
  qed
  then have "\<exists>u. try_charsets env text
               (((case declared_charset hdrs of None \<Rightarrow> [] | Some c \<Rightarrow> [c])
                  @ [encoding env, ''utf-8'']) @ [''iso8859-1'']) = Inr u"
    by (rule try_charsets_known)
  then show "\<exists>u. decode env hdrs (Some text) = Inr u"
    by (simp add: decode_def charsets_def)
next
  show "decode env hdrs (Some text) \<noteq> Inl UnicodeDecodeError"
    by (rule decode_never_exhausted)
qed

theorem decode_total_witness:
  "declared_charset ascii_headers = Some ''ascii''
   \<and> bytes_decode example_env e_acute_latin1 ''ascii'' = Inl UnicodeDecodeError
   \<and> bytes_decode example_env e_acute_latin1 (encoding example_env) = Inl UnicodeDecodeError
   \<and> (\<exists>u. decode example_env ascii_headers (Some e_acute_latin1) = Inr u)
   \<and> decode example_env ascii_headers (Some e_acute_latin1) \<noteq> Inl UnicodeDecodeError"
proof -
  have d: "declared_charset ascii_headers = Some ''ascii''" by code_simp
  have a: "bytes_decode example_env e_acute_latin1 ''ascii'' = Inl UnicodeDecodeError"
    by code_simp
  have e: "bytes_decode example_env e_acute_latin1 (encoding example_env)
           = Inl UnicodeDecodeError"
    by code_simp
  from d a e decode_total [of ascii_headers example_env e_acute_latin1]
  show ?thesis by simp
qed

end
